theory Spec2Isabelle
  imports Main
begin

section \<open>JavaScript values\<close>

text \<open>
  The values the module inspects: caller data (\<open>userData\<close>), the data of a URL rule and the
  JSON body of a rejection. Numbers are integers (timestamps and durations in milliseconds).
  An object is the list of its own properties; the first binding of a name is the one read.
\<close>

datatype jsval =
    JUndefined
  | JNull
  | JBool bool
  | JNum int
  | JStr string
  | JArr "jsval list"
  | JObj "(string \<times> jsval) list"

text \<open>What \<open>!v\<close>, \<open>v && w\<close> and \<open>v || w\<close> test.\<close>

fun truthy :: "jsval \<Rightarrow> bool" where
  "truthy JUndefined = False"
| "truthy JNull = False"
| "truthy (JBool b) = b"
| "truthy (JNum n) = (n \<noteq> 0)"
| "truthy (JStr s) = (s \<noteq> [])"
| "truthy (JArr xs) = True"
| "truthy (JObj kvs) = True"

text \<open>
  \<open>v.name\<close> for a truthy \<open>v\<close> and a name that no prototype defines (\<open>roles\<close>): an object
  gives its property or \<open>undefined\<close>, every other truthy value gives \<open>undefined\<close>.
\<close>

fun getProp :: "jsval \<Rightarrow> string \<Rightarrow> jsval" where
  "getProp (JObj kvs) name = (case map_of kvs name of Some v \<Rightarrow> v | None \<Rightarrow> JUndefined)"
| "getProp v name = JUndefined"

text \<open>
  \<open>a === b\<close>, as \<open>Array.prototype.indexOf\<close> compares. Primitives are compared by value;
  arrays and objects are compared by identity, and a value of a rule never is the same
  object as a value of the caller data.
\<close>

fun strictEq :: "jsval \<Rightarrow> jsval \<Rightarrow> bool" where
  "strictEq JUndefined b = (b = JUndefined)"
| "strictEq JNull b = (b = JNull)"
| "strictEq (JBool x) b = (b = JBool x)"
| "strictEq (JNum x) b = (b = JNum x)"
| "strictEq (JStr x) b = (b = JStr x)"
| "strictEq (JArr xs) b = False"
| "strictEq (JObj kvs) b = False"

section \<open>Data model\<close>

text \<open>
  Every \<open>throw\<close> of the module, the \<open>TypeError\<close> of the engine (a property read on
  \<open>undefined\<close>, a call of something that is no function), and what a collaborator throws
  (\<open>jwt.deserialize\<close>, \<open>JSON.parse\<close>, a configured callback). The two refresh errors carry
  the \<open>new Date()\<close> of their message.
\<close>

datatype error =
    TokenNotFound
  | NotAllowed
  | RefreshTokenExpired int
  | RefreshDenied int
  | TypeError
  | Thrown string

text \<open>A compiled URL rule: only its \<open>data\<close> is read by the module; the pattern is matched by
  the URL parser.\<close>

record rule =
  rule_pattern :: string
  rule_data :: jsval

record udata =
  app :: string
  sub :: jsval
  data :: jsval

text \<open>
  The token payload. \<open>exp\<close> and \<open>rtexp\<close> of a decoded payload are numbers, or \<open>None\<close> for
  \<open>undefined\<close> and \<open>null\<close> (which is what a \<open>NaN\<close> is serialized to): all falsy. \<open>udata\<close> is
  \<open>None\<close> when the payload has none.
\<close>

record token =
  exp :: "int option"
  rtexp :: "int option"
  iss :: string
  udata :: "udata option"

text \<open>
  \<open>request.cookies\<close>: absent, a plain object that maps names to values (with no cookie
  named \<open>length\<close>), or an indexable collection of cookies with \<open>getName()\<close> and
  \<open>getValue()\<close>.
\<close>

datatype cookies =
    NoCookies
  | CookieMap "string \<rightharpoonup> string"
  | CookieArray "(string \<times> string) list"

record request =
  requestURI :: string
  headers :: "string \<rightharpoonup> string"
  cookies :: cookies
  userData :: "udata option"

text \<open>What the module does to the response: \<open>addHeader(name, value)\<close> and
  \<open>json(body, status)\<close>, in order.\<close>

record response =
  sentHeaders :: "(string \<times> string) list"
  sentJson :: "(jsval \<times> int) list"

text \<open>
  The variables of the \<open>Auth\<close> closure. An unset variable (\<open>undefined\<close>) is \<open>None\<close>. A
  callback returns the truthiness of its result, or throws; it does not change its
  arguments. A TTL store is a plain object: the fields hold its own entries, the numbers
  that the configuration calls have put under each key.
\<close>

record config =
  authAuthorizations :: "rule list option"
  authNotAuthenticatedUrls :: "rule list option"
  authCanRefreshTokenFn :: "(token \<Rightarrow> error + bool) option"
  authAuthorizeFn :: "(request \<Rightarrow> string \<Rightarrow> jsval \<Rightarrow> jsval \<Rightarrow> rule \<Rightarrow> error + bool) option"
  authUseSecureAuthentication :: bool
  authAccessTokenTTL :: "string \<rightharpoonup> int"
  authRefreshTokenTTL :: "string \<rightharpoonup> int"

text \<open>
  The collaborators: the pattern test of the URL parser, \<open>jwt.serialize(payload, true)\<close>,
  \<open>JSON.parse(jwt.deserialize(string, true))\<close> (which throws, or gives a payload, or a falsy
  value: \<open>None\<close>), the same for an argument that is no string but a member of the cookie
  object, the names under which the engine's indexable cookie collection answers
  \<open>cookies[name]\<close> with a truthy member of its own (its length, an index, a method), the
  wall clock (its readings, in the order they are taken) and the \<open>toUTCString()\<close> of the
  first of January five years after a reading.
\<close>

record env =
  patternMatches :: "string \<Rightarrow> string \<Rightarrow> bool"
  jwtSerialize :: "token \<Rightarrow> string"
  jwtDeserialize :: "string \<Rightarrow> error + token option"
  jwtDeserializeMember :: "error + token option"
  collectionMember :: "(string \<times> string) list \<Rightarrow> string \<Rightarrow> bool"
  clock :: "nat \<Rightarrow> int"
  expiresUTCString :: "int \<Rightarrow> string"

text \<open>What a request changes: the request and response objects, the number of clock
  readings taken, and what \<open>print\<close> has logged.\<close>

record world =
  req :: request
  resp :: response
  reads :: nat
  printed :: "error list"

text \<open>\<open>new Date().getTime()\<close>, and \<open>new Date()\<close>.\<close>

definition getTime :: "env \<Rightarrow> world \<Rightarrow> int \<times> world" where
  "getTime e w = (clock e (reads w), w\<lparr>reads := Suc (reads w)\<rparr>)"

section \<open>TTL policy store\<close>

text \<open>The closure's initial variables: \<open>DEFAULT_ACCESS_TOKEN_TTL = 5 * (1000 * 60)\<close>,
  \<open>DEFAULT_REFRESH_TOKEN_TTL = 8 * (1000 * 60 * 60)\<close>, nothing else set.\<close>

definition DEFAULT_ACCESS_TOKEN_TTL :: int where
  "DEFAULT_ACCESS_TOKEN_TTL = 5 * (1000 * 60)"

definition DEFAULT_REFRESH_TOKEN_TTL :: int where
  "DEFAULT_REFRESH_TOKEN_TTL = 8 * (1000 * 60 * 60)"

definition initialConfig :: config where
  "initialConfig =
     \<lparr> authAuthorizations = None,
       authNotAuthenticatedUrls = None,
       authCanRefreshTokenFn = None,
       authAuthorizeFn = None,
       authUseSecureAuthentication = False,
       authAccessTokenTTL = [''default'' \<mapsto> DEFAULT_ACCESS_TOKEN_TTL],
       authRefreshTokenTTL = [''default'' \<mapsto> DEFAULT_REFRESH_TOKEN_TTL] \<rparr>"

text \<open>
  The names of the members that every plain object inherits from \<open>Object.prototype\<close>
  (functions, and the prototype itself under \<open>__proto__\<close>: all truthy). A read of such a name
  on an object that has no entry of its own under it gives the member.
\<close>

definition objectMembers :: "string list" where
  "objectMembers =
     [''constructor'', ''toString'', ''toLocaleString'', ''valueOf'', ''hasOwnProperty'',
      ''isPrototypeOf'', ''propertyIsEnumerable'', ''__proto__'', ''__defineGetter__'',
      ''__defineSetter__'', ''__lookupGetter__'', ''__lookupSetter__'']"

text \<open>What a read \<open>store[key]\<close> of a TTL store gives: a number, an inherited member, or
  \<open>undefined\<close>.\<close>

datatype ttlValue = TTL int | InheritedMember string | NoTTL

definition readStore :: "(string \<rightharpoonup> int) \<Rightarrow> string \<Rightarrow> ttlValue" where
  "readStore store key =
     (case store key of
        Some ttl \<Rightarrow> TTL ttl
      | None \<Rightarrow> if key \<in> set objectMembers then InheritedMember key else NoTTL)"

fun truthyTTL :: "ttlValue \<Rightarrow> bool" where
  "truthyTTL (TTL ttl) = (ttl \<noteq> 0)"
| "truthyTTL (InheritedMember name) = True"
| "truthyTTL NoTTL = False"

text \<open>\<open>store[key] = ttl\<close> for a number: a new own entry, except under \<open>__proto__\<close>, where the
  assignment of a number changes nothing.\<close>

definition assignTTL :: "(string \<rightharpoonup> int) \<Rightarrow> string \<Rightarrow> int \<Rightarrow> (string \<rightharpoonup> int)" where
  "assignTTL store key ttl = (if key = ''__proto__'' then store else store(key \<mapsto> ttl))"

text \<open>The arguments of \<open>accessTokenTTL\<close> and \<open>refreshTokenTTL\<close>: \<open>(ttl)\<close> or \<open>(app, ttl)\<close>.\<close>

datatype ttlArgs = OneArg int | TwoArgs string int

fun accessTokenTTL :: "ttlArgs \<Rightarrow> config \<Rightarrow> config" where
  "accessTokenTTL (OneArg ttl) cfg =
     cfg\<lparr>authAccessTokenTTL := assignTTL (authAccessTokenTTL cfg) ''default'' ttl\<rparr>"
| "accessTokenTTL (TwoArgs a ttl) cfg =
     cfg\<lparr>authAccessTokenTTL := assignTTL (authAccessTokenTTL cfg) a ttl\<rparr>"

fun refreshTokenTTL :: "ttlArgs \<Rightarrow> config \<Rightarrow> config" where
  "refreshTokenTTL (OneArg ttl) cfg =
     cfg\<lparr>authRefreshTokenTTL := assignTTL (authRefreshTokenTTL cfg) ''default'' ttl\<rparr>"
| "refreshTokenTTL (TwoArgs a ttl) cfg =
     cfg\<lparr>authRefreshTokenTTL := assignTTL (authRefreshTokenTTL cfg) a ttl\<rparr>"

text \<open>
  \<open>store[app] || store['default']\<close>: the first read is the result when it is truthy (a number
  other than \<open>0\<close>, or an inherited member), the read of \<open>default\<close> otherwise.
\<close>

definition ttlLookup :: "(string \<rightharpoonup> int) \<Rightarrow> string \<Rightarrow> ttlValue" where
  "ttlLookup store a =
     (if truthyTTL (readStore store a) then readStore store a else readStore store ''default'')"

definition getRefreshTokenTTL :: "config \<Rightarrow> string \<Rightarrow> ttlValue" where
  "getRefreshTokenTTL cfg a = ttlLookup (authRefreshTokenTTL cfg) a"

definition getAccessTokenTTL :: "config \<Rightarrow> string \<Rightarrow> ttlValue" where
  "getAccessTokenTTL cfg a = ttlLookup (authAccessTokenTTL cfg) a"

text \<open>
  \<open>time + ttl\<close>: a number for a number; \<open>NaN\<close> for \<open>undefined\<close> and a string for an inherited
  member, neither of which is a number. No function reads the field again before the
  payload is serialized.
\<close>

definition plusTTL :: "int \<Rightarrow> ttlValue \<Rightarrow> int option" where
  "plusTTL time ttl = (case ttl of TTL d \<Rightarrow> Some (time + d) | InheritedMember name \<Rightarrow> None | NoTTL \<Rightarrow> None)"

section \<open>URL rule matcher\<close>

text \<open>
  Modelled from the spec: \<open>urlParser.urlMatches(rules, uri, predicate?)\<close> of the package
  \<open>url-parser\<close>, which is not among the sources. The spec's contract (4.2): the result is the
  first rule, in configured order, whose pattern matches the URI, or none; with a predicate, a
  rule counts as matched only if the predicate also returns true for it. What the predicate
  throws leaves the matcher. The pattern test itself is the collaborator \<open>patternMatches\<close>.
\<close>

fun urlMatches ::
  "(string \<Rightarrow> string \<Rightarrow> bool) \<Rightarrow> rule list \<Rightarrow> string \<Rightarrow> (rule \<Rightarrow> error + bool) option
     \<Rightarrow> error + rule option" where
  "urlMatches pm [] uri matchFn = Inr None"
| "urlMatches pm (r # rs) uri matchFn =
     (if pm (rule_pattern r) uri then
        (case matchFn of
           None \<Rightarrow> Inr (Some r)
         | Some f \<Rightarrow>
             (case f r of
                Inl err \<Rightarrow> Inl err
              | Inr True \<Rightarrow> Inr (Some r)
              | Inr False \<Rightarrow> urlMatches pm rs uri matchFn))
      else urlMatches pm rs uri matchFn)"

text \<open>
  Modelled from the spec: an instance of the pattern test, for the scenarios of the spec
  (\<open>/admin/*\<close>, \<open>/public/*\<close>); the pattern syntax belongs to the package \<open>url-parser\<close>. A final
  star matches every rest of the URI, every other character matches itself.
\<close>

fun starMatches :: "string \<Rightarrow> string \<Rightarrow> bool" where
  "starMatches [] uri = (uri = [])"
| "starMatches (c # p) uri =
     (if c = CHR ''*'' \<and> p = [] then True
      else (case uri of [] \<Rightarrow> False | d # rest \<Rightarrow> c = d \<and> starMatches p rest))"

section \<open>Authorization evaluator\<close>

text \<open>
  \<open>userRoles\<close> after \<open>if (typeof userRoles === 'string') userRoles = [userRoles]\<close>, as the
  receiver of \<open>indexOf\<close>: the elements of an array; \<open>None\<close> for a value that has no array
  \<open>indexOf\<close> to call (a number, a boolean, an object, \<open>undefined\<close>, \<open>null\<close>).
\<close>

fun userRolesArray :: "jsval \<Rightarrow> jsval list option" where
  "userRolesArray (JStr s) = Some [JStr s]"
| "userRolesArray (JArr xs) = Some xs"
| "userRolesArray v = None"

text \<open>
  \<open>urlRule.data.some(function (role) { return userRoles.indexOf(role) > -1 })\<close>. A \<open>data\<close>
  that is no array has no \<open>some\<close>; the callback runs only when \<open>data\<close> has an element.
\<close>

fun rolePredicate :: "jsval \<Rightarrow> jsval \<Rightarrow> error + bool" where
  "rolePredicate userRoles (JArr ds) =
     (if ds = [] then Inr False
      else (case userRolesArray userRoles of
              None \<Rightarrow> Inl TypeError
            | Some us \<Rightarrow> Inr (list_ex (\<lambda>role. list_ex (\<lambda>u. strictEq u role) us) ds)))"
| "rolePredicate userRoles v = Inl TypeError"

text \<open>\<open>userData && userData.roles\<close>.\<close>

definition userRolesOf :: "jsval \<Rightarrow> jsval" where
  "userRolesOf usrData = (if truthy usrData then getProp usrData ''roles'' else usrData)"

text \<open>
  \<open>isAuthorized(request, userData)\<close>. The result is the truthiness of what the function
  returns (its callers test \<open>!isAuthorized(...)\<close>), or what it throws.
\<close>

definition isAuthorized :: "env \<Rightarrow> config \<Rightarrow> request \<Rightarrow> jsval \<Rightarrow> error + bool" where
  "isAuthorized e cfg request usrData =
     (case authAuthorizations cfg of
        None \<Rightarrow> Inr True
      | Some rules \<Rightarrow>
          (let userRoles = userRolesOf usrData in
           if authAuthorizeFn cfg = None \<and> \<not> truthy userRoles then Inr True
           else
             (case urlMatches (patternMatches e) rules (requestURI request)
                     (Some (\<lambda>urlRule.
                        (case authAuthorizeFn cfg of
                           Some f \<Rightarrow> f request (requestURI request) (rule_data urlRule) usrData urlRule
                         | None \<Rightarrow> rolePredicate userRoles (rule_data urlRule)))) of
                Inl err \<Rightarrow> Inl err
              | Inr m \<Rightarrow> Inr (m \<noteq> None))))"

text \<open>\<open>isAuthenticatedUrl(requestURI)\<close>:
  \<open>!authNotAuthenticatedUrls || !urlParser.urlMatches(authNotAuthenticatedUrls, requestURI)\<close>.\<close>

definition isAuthenticatedUrl :: "env \<Rightarrow> config \<Rightarrow> string \<Rightarrow> error + bool" where
  "isAuthenticatedUrl e cfg uri =
     (case authNotAuthenticatedUrls cfg of
        None \<Rightarrow> Inr True
      | Some rules \<Rightarrow>
          (case urlMatches (patternMatches e) rules uri None of
             Inl err \<Rightarrow> Inl err
           | Inr m \<Rightarrow> Inr (m = None)))"

section \<open>Token transport\<close>

text \<open>\<open>a || b\<close> where \<open>a\<close> is a string or \<open>undefined\<close> and \<open>b\<close> is a string.\<close>

fun orString :: "string option \<Rightarrow> string \<Rightarrow> string" where
  "orString (Some s) b = (if s \<noteq> [] then s else b)"
| "orString None b = b"

text \<open>\<open>getTokenName(params, request)\<close>:
  \<open>params['tknAppName'] || request.headers['tknAppName'] || 'tkn'\<close>.\<close>

definition getTokenName :: "(string \<rightharpoonup> string) \<Rightarrow> request \<Rightarrow> string" where
  "getTokenName params request =
     orString (params ''tknAppName'') (orString (headers request ''tknAppName'') ''tkn'')"

text \<open>The loop of \<open>extractToken\<close>: the value of the first cookie of that name.\<close>

fun findCookie :: "(string \<times> string) list \<Rightarrow> string \<Rightarrow> string option" where
  "findCookie [] name = None"
| "findCookie (c # cs) name = (if fst c = name then Some (snd c) else findCookie cs name)"

text \<open>What \<open>extractToken\<close> returns: \<open>undefined\<close>, the string of a cookie, or a truthy member
  of the cookie object that is no cookie value.\<close>

datatype extracted = NoValue | CookieValue string | MemberValue

text \<open>
  \<open>extractToken(request, name)\<close>. \<open>cookies[name]\<close> on the literal \<open>{}\<close> or on a plain object
  gives an inherited member when the name has no entry and is the name of one; on an
  indexable collection it gives what the collection has under the name. A truthy read is
  returned as it is; the loop runs when the read is falsy and the collection is not empty.
\<close>

definition extractToken :: "env \<Rightarrow> request \<Rightarrow> string \<Rightarrow> extracted" where
  "extractToken e request name =
     (case cookies request of
        NoCookies \<Rightarrow> if name \<in> set objectMembers then MemberValue else NoValue
      | CookieMap m \<Rightarrow>
          (case m name of
             Some v \<Rightarrow> CookieValue v
           | None \<Rightarrow> if name \<in> set objectMembers then MemberValue else NoValue)
      | CookieArray cs \<Rightarrow>
          if collectionMember e cs name then MemberValue
          else (case findCookie cs name of None \<Rightarrow> NoValue | Some v \<Rightarrow> CookieValue v))"

text \<open>\<open>readToken(request, name)\<close>: the decoded payload, \<open>null\<close> (\<open>None\<close>) when there is no
  truthy token value, or what the decoding throws.\<close>

definition readToken :: "env \<Rightarrow> request \<Rightarrow> string \<Rightarrow> error + token option" where
  "readToken e request name =
     (case extractToken e request (if name \<noteq> [] then name else ''tkn'') of
        NoValue \<Rightarrow> Inr None
      | CookieValue tkn \<Rightarrow> if tkn \<noteq> [] then jwtDeserialize e tkn else Inr None
      | MemberValue \<Rightarrow> jwtDeserializeMember e)"

text \<open>The class \<open>\w\<close> of the regular expression: letters, digits and the underscore.\<close>

definition isWordChar :: "char \<Rightarrow> bool" where
  "isWordChar c =
     (let n = (of_char c :: nat) in
      (48 \<le> n \<and> n \<le> 57) \<or> (65 \<le> n \<and> n \<le> 90) \<or> n = 95 \<or> (97 \<le> n \<and> n \<le> 122))"

text \<open>\<open>cookieStr.replace(/;([\w])/g, '; $1')\<close>.\<close>

fun spaceAfterSemicolon :: "string \<Rightarrow> string" where
  "spaceAfterSemicolon (c # d # cs) =
     (if c = CHR '';'' \<and> isWordChar d then c # CHR '' '' # d # spaceAfterSemicolon cs
      else c # spaceAfterSemicolon (d # cs))"
| "spaceAfterSemicolon cs = cs"

text \<open>\<open>response.addHeader(name, value)\<close> and \<open>response.json(body, status)\<close>.\<close>

definition addHeader :: "string \<Rightarrow> string \<Rightarrow> response \<Rightarrow> response" where
  "addHeader name v r = r\<lparr>sentHeaders := sentHeaders r @ [(name, v)]\<rparr>"

definition json :: "jsval \<Rightarrow> int \<Rightarrow> response \<Rightarrow> response" where
  "json body status r = r\<lparr>sentJson := sentJson r @ [(body, status)]\<rparr>"

text \<open>\<open>setTokenIntoHeader(params, request, response, serializedToken)\<close>.\<close>

definition setTokenIntoHeader ::
  "env \<Rightarrow> config \<Rightarrow> (string \<rightharpoonup> string) \<Rightarrow> string \<Rightarrow> world \<Rightarrow> world" where
  "setTokenIntoHeader e cfg params serializedToken w =
     (let tknAppName = getTokenName params (req w);
          secure = (if authUseSecureAuthentication cfg then ''secure;'' else []);
          (time, w1) = getTime e w;
          expires = '';expires='' @ expiresUTCString e time;
          cookieStr = tknAppName @ ''='' @ serializedToken @ '';HttpOnly;path=/;'' @ secure @ expires
      in w1\<lparr>resp := addHeader ''Set-Cookie'' (spaceAfterSemicolon cookieStr) (resp w1)\<rparr>)"

text \<open>\<open>notAuthenticated(response)\<close>.\<close>

definition notAuthenticated :: "response \<Rightarrow> response" where
  "notAuthenticated r =
     json (JObj [(''message'', JStr ''Authentication Error: Not Authenticated''),
                 (''status'', JNum 401)]) 401 r"

section \<open>Token lifecycle\<close>

text \<open>The object literal that \<open>createAuthentication\<close> serializes, with its two clock readings.\<close>

definition authenticationPayload ::
  "env \<Rightarrow> config \<Rightarrow> jsval \<Rightarrow> string \<Rightarrow> jsval \<Rightarrow> world \<Rightarrow> token \<times> world" where
  "authenticationPayload e cfg userId appId dat w =
     (let (time1, w1) = getTime e w;
          expires = plusTTL time1 (getAccessTokenTTL cfg appId);
          (time2, w2) = getTime e w1
      in (\<lparr> exp = expires,
            rtexp = plusTTL time2 (getRefreshTokenTTL cfg appId),
            iss = appId,
            udata = Some \<lparr> app = appId, sub = userId, data = dat \<rparr> \<rparr>, w2))"

text \<open>\<open>createAuthentication(params, request, response, userId, appId, data)\<close>.\<close>

definition createAuthentication ::
  "env \<Rightarrow> config \<Rightarrow> (string \<rightharpoonup> string) \<Rightarrow> jsval \<Rightarrow> string \<Rightarrow> jsval \<Rightarrow> world \<Rightarrow> string \<times> world" where
  "createAuthentication e cfg params userId appId dat w =
     (let (payload, w2) = authenticationPayload e cfg userId appId dat w;
          tkn = jwtSerialize e payload
      in (tkn, setTokenIntoHeader e cfg params tkn w2))"

text \<open>\<open>token.exp && token.exp >= new Date().getTime()\<close>: the clock is read only when
  \<open>token.exp\<close> is truthy.\<close>

definition isAccessTokenAlive :: "env \<Rightarrow> token \<Rightarrow> world \<Rightarrow> bool \<times> world" where
  "isAccessTokenAlive e t w =
     (case exp t of
        None \<Rightarrow> (False, w)
      | Some x \<Rightarrow> if x = 0 then (False, w) else (let (time, w1) = getTime e w in (time \<le> x, w1)))"

definition isRefreshTokenAlive :: "env \<Rightarrow> token \<Rightarrow> world \<Rightarrow> bool \<times> world" where
  "isRefreshTokenAlive e t w =
     (case rtexp t of
        None \<Rightarrow> (False, w)
      | Some x \<Rightarrow> if x = 0 then (False, w) else (let (time, w1) = getTime e w in (time \<le> x, w1)))"

text \<open>The last three statements of \<open>tryToRefreshToken\<close>: the two assignments to the token and
  the call of \<open>setTokenIntoHeader\<close>. \<open>token.udata.app\<close> throws when the token has no \<open>udata\<close>,
  after the clock was read.\<close>

definition renewToken ::
  "env \<Rightarrow> config \<Rightarrow> (string \<rightharpoonup> string) \<Rightarrow> token \<Rightarrow> world \<Rightarrow> (error + token) \<times> world" where
  "renewToken e cfg params t w =
     (let (time1, w1) = getTime e w in
      case udata t of
        None \<Rightarrow> (Inl TypeError, w1)
      | Some u \<Rightarrow>
          (let t1 = t\<lparr>exp := plusTTL time1 (getAccessTokenTTL cfg (app u))\<rparr>;
               (time2, w2) = getTime e w1;
               t2 = t1\<lparr>rtexp := plusTTL time2 (getRefreshTokenTTL cfg (app u))\<rparr>
           in (Inr t2, setTokenIntoHeader e cfg params (jwtSerialize e t2) w2)))"

text \<open>\<open>tryToRefreshToken(params, request, response, token)\<close>; the result is the token as the
  function leaves it.\<close>

definition tryToRefreshToken ::
  "env \<Rightarrow> config \<Rightarrow> (string \<rightharpoonup> string) \<Rightarrow> token \<Rightarrow> world \<Rightarrow> (error + token) \<times> world" where
  "tryToRefreshToken e cfg params t w =
     (let (alive, w1) = isRefreshTokenAlive e t w in
      if \<not> alive then (let (time, w2) = getTime e w1 in (Inl (RefreshTokenExpired time), w2))
      else
        (case authCanRefreshTokenFn cfg of
           None \<Rightarrow> renewToken e cfg params t w1
         | Some canRefresh \<Rightarrow>
             (case canRefresh t of
                Inl err \<Rightarrow> (Inl err, w1)
              | Inr False \<Rightarrow> (let (time, w2) = getTime e w1 in (Inl (RefreshDenied time), w2))
              | Inr True \<Rightarrow> renewToken e cfg params t w1)))"

section \<open>Middleware controller\<close>

text \<open>\<open>token.udata && token.udata.data\<close>.\<close>

definition tokenData :: "token \<Rightarrow> jsval" where
  "tokenData t = (case udata t of None \<Rightarrow> JUndefined | Some u \<Rightarrow> data u)"

text \<open>\<open>proccessAndValidateToken(params, request, response)\<close>.\<close>

definition proccessAndValidateToken ::
  "env \<Rightarrow> config \<Rightarrow> (string \<rightharpoonup> string) \<Rightarrow> world \<Rightarrow> (error + unit) \<times> world" where
  "proccessAndValidateToken e cfg params w =
     (let tknAppName = getTokenName params (req w) in
      case readToken e (req w) tknAppName of
        Inl err \<Rightarrow> (Inl err, w)
      | Inr None \<Rightarrow> (Inl TokenNotFound, w)
      | Inr (Some t) \<Rightarrow>
          (let (alive, w1) = isAccessTokenAlive e t w in
           case (if \<not> alive then tryToRefreshToken e cfg params t w1 else (Inr t, w1)) of
             (Inl err, w2) \<Rightarrow> (Inl err, w2)
           | (Inr t', w2) \<Rightarrow>
               (case isAuthorized e cfg (req w2) (tokenData t') of
                  Inl err \<Rightarrow> (Inl err, w2)
                | Inr False \<Rightarrow> (Inl NotAllowed, w2)
                | Inr True \<Rightarrow> (Inr (), w2\<lparr>req := (req w2)\<lparr>userData := udata t'\<rparr>\<rparr>))))"

text \<open>\<open>middleware(params, request, response)\<close>. The test of the URI stands before the
  \<open>try\<close>; what \<open>proccessAndValidateToken\<close> throws is printed and answered by
  \<open>notAuthenticated\<close>.\<close>

definition middleware ::
  "env \<Rightarrow> config \<Rightarrow> (string \<rightharpoonup> string) \<Rightarrow> world \<Rightarrow> (error + bool) \<times> world" where
  "middleware e cfg params w =
     (case isAuthenticatedUrl e cfg (requestURI (req w)) of
        Inl err \<Rightarrow> (Inl err, w)
      | Inr False \<Rightarrow> (Inr True, w)
      | Inr True \<Rightarrow>
          (case proccessAndValidateToken e cfg params w of
             (Inr u, w1) \<Rightarrow> (Inr True, w1)
           | (Inl err, w1) \<Rightarrow>
               (Inr False, w1\<lparr>printed := printed w1 @ [err], resp := notAuthenticated (resp w1)\<rparr>)))"

section \<open>Scenarios\<close>

text \<open>
  Concrete collaborators, configurations and requests on which the statements below are
  evaluated. The clock advances by one millisecond at every reading.
\<close>

definition exampleEnv :: env where
  "exampleEnv =
     \<lparr> patternMatches = starMatches,
       jwtSerialize = (\<lambda>t. ''signed''),
       jwtDeserialize = (\<lambda>s. Inr None),
       jwtDeserializeMember = Inl (Thrown ''malformed''),
       collectionMember = (\<lambda>cs name. name = ''length'' \<and> cs \<noteq> []),
       clock = (\<lambda>n. 1600000000000 + int n),
       expiresUTCString = (\<lambda>t. ''Wed, 01 Jan 2025 00:00:00 GMT'') \<rparr>"

definition adminRules :: "rule list" where
  "adminRules = [\<lparr> rule_pattern = ''/admin/*'', rule_data = JArr [JStr ''admin''] \<rparr>]"

definition adminConfig :: config where
  "adminConfig = initialConfig\<lparr>authAuthorizations := Some adminRules\<rparr>"

definition meuAppConfig :: config where
  "meuAppConfig =
     accessTokenTTL (TwoArgs ''meuApp'' 16000) (refreshTokenTTL (OneArg 20000) initialConfig)"

definition requestTo :: "string \<Rightarrow> cookies \<Rightarrow> request" where
  "requestTo uri cs = \<lparr> requestURI = uri, headers = Map.empty, cookies = cs, userData = None \<rparr>"

definition emptyWorld :: "string \<Rightarrow> cookies \<Rightarrow> world" where
  "emptyWorld uri cs =
     \<lparr> req = requestTo uri cs,
       resp = \<lparr> sentHeaders = [], sentJson = [] \<rparr>,
       reads = 0,
       printed = [] \<rparr>"

definition exampleUdata :: udata where
  "exampleUdata =
     \<lparr> app = ''mobileApp1'', sub = JNum 341, data = JObj [(''roles'', JArr [JStr ''admin''])] \<rparr>"

definition tokenWith :: "int \<Rightarrow> int \<Rightarrow> token" where
  "tokenWith x y = \<lparr> exp = Some x, rtexp = Some y, iss = ''mobileApp1'', udata = Some exampleUdata \<rparr>"

text \<open>A token issued 10000 seconds before the clock's first reading, under the default TTLs;
  and a token whose two expiry times lie years before it.\<close>

definition issuedToken :: token where
  "issuedToken = tokenWith 1599990300000 1600018800000"

definition deadToken :: token where
  "deadToken = tokenWith 1500000000000 1500000300000"

text \<open>The collaborators with a codec that decodes the string \<open>signed\<close> to the given token and
  throws on every other string; a request that carries that string in the cookie \<open>tkn\<close>.\<close>

definition envDecoding :: "token \<Rightarrow> env" where
  "envDecoding t =
     exampleEnv\<lparr>jwtDeserialize :=
       (\<lambda>s. if s = ''signed'' then Inr (Some t) else Inl (Thrown ''malformed''))\<rparr>"

definition tknCookie :: cookies where
  "tknCookie = CookieMap [''tkn'' \<mapsto> ''signed'']"

definition tknWorld :: "string \<Rightarrow> world" where
  "tknWorld uri = emptyWorld uri tknCookie"

definition publicConfig :: config where
  "publicConfig =
     adminConfig\<lparr>authNotAuthenticatedUrls :=
       Some [\<lparr> rule_pattern = ''/public/*'', rule_data = JUndefined \<rparr>]\<rparr>"

section \<open>The rule matcher\<close>

lemma urlMatches_no_predicate:
  "urlMatches pm rules uri None = Inr (find (\<lambda>r. pm (rule_pattern r) uri) rules)"
  by (induction rules) auto

lemma urlMatches_predicate:
  "\<forall>r\<in>set rules. pm (rule_pattern r) uri \<longrightarrow> f r = Inr (q r) \<Longrightarrow>
   urlMatches pm rules uri (Some f) = Inr (find (\<lambda>r. pm (rule_pattern r) uri \<and> q r) rules)"
  by (induction rules) auto

lemma rolePredicate_array:
  "rolePredicate (JArr (map JStr rs)) (JArr (map JStr ds)) = Inr (set ds \<inter> set rs \<noteq> {})"
  by (auto simp: list_ex_iff)

lemma rolePredicate_string:
  "rolePredicate (JStr s) (JArr (map JStr ds)) = Inr (set ds \<inter> set [s] \<noteq> {})"
  by (auto simp: list_ex_iff)

lemmas example_defs =
  exampleEnv_def adminRules_def adminConfig_def requestTo_def emptyWorld_def initialConfig_def
  DEFAULT_ACCESS_TOKEN_TTL_def DEFAULT_REFRESH_TOKEN_TTL_def

lemmas eval_defs =
  exampleUdata_def tokenWith_def envDecoding_def tknCookie_def publicConfig_def issuedToken_def
  deadToken_def tknWorld_def example_defs

section \<open>Authorization\<close>

text \<open>
  With no authorize function, a caller whose roles are a non-empty string or an array of
  strings is authorized exactly when some rule matches the URI and shares a role with the
  caller; \<open>ds r\<close> are the roles of the rule \<open>r\<close>.
\<close>

lemma isAuthorized_roles_eq:
  assumes fn: "authAuthorizeFn cfg = None"
    and rules: "authAuthorizations cfg = Some rules"
    and roles: "(userRolesOf usrData = JStr s \<and> s \<noteq> [] \<and> rs = [s])
                \<or> userRolesOf usrData = JArr (map JStr rs)"
    and rdata: "\<forall>r\<in>set rules. patternMatches e (rule_pattern r) (requestURI request)
                 \<longrightarrow> rule_data r = JArr (map JStr (ds r))"
  shows "isAuthorized e cfg request usrData =
           Inr (\<exists>r\<in>set rules. patternMatches e (rule_pattern r) (requestURI request)
                  \<and> set (ds r) \<inter> set rs \<noteq> {})"
proof -
  let ?q = "\<lambda>r. set (ds r) \<inter> set rs \<noteq> {}"
  let ?f = "\<lambda>urlRule. rolePredicate (userRolesOf usrData) (rule_data urlRule)"
  have t: "truthy (userRolesOf usrData)"
    using roles by auto
  have p: "\<forall>r\<in>set rules. patternMatches e (rule_pattern r) (requestURI request)
             \<longrightarrow> ?f r = Inr (?q r)"
    using roles rdata
    by (auto simp del: rolePredicate.simps simp add: rolePredicate_array rolePredicate_string)
  have "urlMatches (patternMatches e) rules (requestURI request) (Some ?f)
          = Inr (find (\<lambda>r. patternMatches e (rule_pattern r) (requestURI request) \<and> ?q r) rules)"
    using urlMatches_predicate [where pm = "patternMatches e" and uri = "requestURI request"
        and rules = rules and f = "?f" and q = "?q"] p by blast
  then show ?thesis
    using fn rules t by (auto simp: isAuthorized_def Let_def find_None_iff)
qed

text \<open>
  C3, amended. If no authorization rule set has been configured, or if no authorize function
  is configured and the caller's roles are absent or falsy (\<open>undefined\<close>, \<open>null\<close>, the empty
  string), then \<open>isAuthorized\<close> returns true. An empty array of roles is truthy and is not
  covered.
\<close>

theorem isAuthorized_fail_open:
  assumes "authAuthorizations cfg = None
           \<or> (authAuthorizeFn cfg = None \<and> \<not> truthy (userRolesOf usrData))"
  shows "isAuthorized e cfg request usrData = Inr True"
  using assms by (auto simp: isAuthorized_def Let_def split: option.splits)

theorem isAuthorized_fail_open_witness:
  "authAuthorizations initialConfig = None
   \<and> isAuthorized exampleEnv initialConfig (requestTo ''/admin/reports'' NoCookies)
        (JObj [(''roles'', JStr ''user'')]) = Inr True
   \<and> authAuthorizeFn adminConfig = None
   \<and> \<not> truthy (userRolesOf (JObj [(''name'', JStr ''ann'')]))
   \<and> isAuthorized exampleEnv adminConfig (requestTo ''/admin/reports'' NoCookies)
        (JObj [(''name'', JStr ''ann'')]) = Inr True
   \<and> \<not> truthy (userRolesOf (JObj [(''roles'', JStr [])]))
   \<and> isAuthorized exampleEnv adminConfig (requestTo ''/admin/reports'' NoCookies)
        (JObj [(''roles'', JStr [])]) = Inr True"
  using isAuthorized_fail_open [of initialConfig "JObj [(''roles'', JStr ''user'')]" exampleEnv
      "requestTo ''/admin/reports'' NoCookies"]
    isAuthorized_fail_open [of adminConfig "JObj [(''name'', JStr ''ann'')]" exampleEnv
      "requestTo ''/admin/reports'' NoCookies"]
    isAuthorized_fail_open [of adminConfig "JObj [(''roles'', JStr [])]" exampleEnv
      "requestTo ''/admin/reports'' NoCookies"]
  by (simp add: example_defs userRolesOf_def)

text \<open>
  C3 as stated fails for roles that are empty but truthy: with no authorize function and the
  empty array as roles, the URI \<open>/admin/reports\<close> under the rule \<open>/admin/*\<close> is denied.
\<close>

theorem isAuthorized_empty_roles_counterexample:
  "authAuthorizeFn adminConfig = None
   \<and> userRolesOf (JObj [(''roles'', JArr [])]) = JArr []
   \<and> isAuthorized exampleEnv adminConfig (requestTo ''/admin/reports'' NoCookies)
        (JObj [(''roles'', JArr [])]) = Inr False"
  by (simp add: example_defs userRolesOf_def isAuthorized_def)

text \<open>
  C7, amended. With no authorize function configured, for a caller whose roles are present
  (a non-empty string, taken as a one-element set, or an array of strings) and a URI whose
  matching rules carry lists of roles: if the caller's roles are disjoint from the roles of
  every matching rule, \<open>isAuthorized\<close> returns false; if the caller holds a role of some
  matching rule, it returns true. A caller with no roles at all is not covered: C3 allows it.
\<close>

theorem isAuthorized_by_roles:
  assumes "authAuthorizeFn cfg = None"
    and "authAuthorizations cfg = Some rules"
    and "(userRolesOf usrData = JStr s \<and> s \<noteq> [] \<and> rs = [s])
         \<or> userRolesOf usrData = JArr (map JStr rs)"
    and "\<forall>r\<in>set rules. patternMatches e (rule_pattern r) (requestURI request)
           \<longrightarrow> rule_data r = JArr (map JStr (ds r))"
  shows "((\<forall>r\<in>set rules. patternMatches e (rule_pattern r) (requestURI request)
             \<longrightarrow> set (ds r) \<inter> set rs = {})
          \<longrightarrow> isAuthorized e cfg request usrData = Inr False)
       \<and> ((\<exists>r\<in>set rules. patternMatches e (rule_pattern r) (requestURI request)
             \<and> set (ds r) \<inter> set rs \<noteq> {})
          \<longrightarrow> isAuthorized e cfg request usrData = Inr True)"
  using isAuthorized_roles_eq [OF assms] by auto

theorem isAuthorized_by_roles_witness:
  "starMatches ''/admin/*'' ''/admin/reports''
   \<and> isAuthorized exampleEnv adminConfig (requestTo ''/admin/reports'' NoCookies)
        (JObj [(''roles'', JStr ''user'')]) = Inr False
   \<and> isAuthorized exampleEnv adminConfig (requestTo ''/admin/reports'' NoCookies)
        (JObj [(''roles'', JArr [JStr ''admin'', JStr ''user''])]) = Inr True"
  using isAuthorized_by_roles [of adminConfig adminRules "JObj [(''roles'', JStr ''user'')]"
      "''user''" "[''user'']" exampleEnv "requestTo ''/admin/reports'' NoCookies"
      "\<lambda>r. [''admin'']"]
    isAuthorized_by_roles [of adminConfig adminRules
      "JObj [(''roles'', JArr [JStr ''admin'', JStr ''user''])]"
      "[]" "[''admin'', ''user'']" exampleEnv "requestTo ''/admin/reports'' NoCookies"
      "\<lambda>r. [''admin'']"]
  by (simp add: example_defs userRolesOf_def)

text \<open>
  C7 as stated fails for a caller without roles: its role set is empty, so disjoint from the
  roles of the matching rule \<open>/admin/*\<close>, and the result is true.
\<close>

theorem isAuthorized_no_roles_counterexample:
  "authAuthorizeFn adminConfig = None
   \<and> starMatches ''/admin/*'' ''/admin/reports''
   \<and> userRolesOf (JObj [(''name'', JStr ''ann'')]) = JUndefined
   \<and> isAuthorized exampleEnv adminConfig (requestTo ''/admin/reports'' NoCookies)
        (JObj [(''name'', JStr ''ann'')]) = Inr True"
  by (simp add: example_defs userRolesOf_def isAuthorized_def)

section \<open>TTL lookup and issuance\<close>

lemma ttlLookup_default: "ttlLookup store ''default'' = readStore store ''default''"
  by (simp add: ttlLookup_def)

lemma readStore_default:
  "readStore store ''default'' = (case store ''default'' of Some ttl \<Rightarrow> TTL ttl | None \<Rightarrow> NoTTL)"
  by (simp add: readStore_def objectMembers_def)

lemma ttlLookup_own: "store a = Some t \<Longrightarrow> t \<noteq> 0 \<Longrightarrow> ttlLookup store a = TTL t"
  by (simp add: ttlLookup_def readStore_def)

lemma ttlLookup_zero: "store a = Some 0 \<Longrightarrow> ttlLookup store a = readStore store ''default''"
  by (simp add: ttlLookup_def readStore_def)

lemma ttlLookup_none:
  "store a = None \<Longrightarrow> a \<notin> set objectMembers \<Longrightarrow> ttlLookup store a = readStore store ''default''"
  by (simp add: ttlLookup_def readStore_def)

text \<open>
  C4, amended. For every appId, \<open>getAccessTokenTTL\<close> (and symmetrically
  \<open>getRefreshTokenTTL\<close>) returns the per-app duration whenever one is present and is not
  \<open>0\<close>. When the per-app entry is \<open>0\<close>, or when no per-app entry exists and the appId is not
  the name of a member that every object inherits, it returns what it returns for
  \<open>default\<close>, which is the \<open>default\<close> entry.
\<close>

theorem ttl_lookup_fallback:
  "(authAccessTokenTTL cfg a = Some ttl \<and> ttl \<noteq> 0 \<longrightarrow> getAccessTokenTTL cfg a = TTL ttl)
   \<and> (authAccessTokenTTL cfg a = Some 0
        \<or> (authAccessTokenTTL cfg a = None \<and> a \<notin> set objectMembers)
        \<longrightarrow> getAccessTokenTTL cfg a = getAccessTokenTTL cfg ''default'')
   \<and> getAccessTokenTTL cfg ''default''
        = (case authAccessTokenTTL cfg ''default'' of Some d \<Rightarrow> TTL d | None \<Rightarrow> NoTTL)
   \<and> (authRefreshTokenTTL cfg a = Some rttl \<and> rttl \<noteq> 0 \<longrightarrow> getRefreshTokenTTL cfg a = TTL rttl)
   \<and> (authRefreshTokenTTL cfg a = Some 0
        \<or> (authRefreshTokenTTL cfg a = None \<and> a \<notin> set objectMembers)
        \<longrightarrow> getRefreshTokenTTL cfg a = getRefreshTokenTTL cfg ''default'')
   \<and> getRefreshTokenTTL cfg ''default''
        = (case authRefreshTokenTTL cfg ''default'' of Some d \<Rightarrow> TTL d | None \<Rightarrow> NoTTL)"
proof (intro conjI impI)
  show "getAccessTokenTTL cfg a = TTL ttl" if "authAccessTokenTTL cfg a = Some ttl \<and> ttl \<noteq> 0"
    using that by (simp add: getAccessTokenTTL_def ttlLookup_own)
  show "getAccessTokenTTL cfg a = getAccessTokenTTL cfg ''default''"
    if "authAccessTokenTTL cfg a = Some 0
        \<or> (authAccessTokenTTL cfg a = None \<and> a \<notin> set objectMembers)"
    using that
    by (auto simp: getAccessTokenTTL_def ttlLookup_zero ttlLookup_none ttlLookup_default)
  show "getAccessTokenTTL cfg ''default''
        = (case authAccessTokenTTL cfg ''default'' of Some d \<Rightarrow> TTL d | None \<Rightarrow> NoTTL)"
    by (simp add: getAccessTokenTTL_def ttlLookup_default readStore_default)
  show "getRefreshTokenTTL cfg a = TTL rttl" if "authRefreshTokenTTL cfg a = Some rttl \<and> rttl \<noteq> 0"
    using that by (simp add: getRefreshTokenTTL_def ttlLookup_own)
  show "getRefreshTokenTTL cfg a = getRefreshTokenTTL cfg ''default''"
    if "authRefreshTokenTTL cfg a = Some 0
        \<or> (authRefreshTokenTTL cfg a = None \<and> a \<notin> set objectMembers)"
    using that
    by (auto simp: getRefreshTokenTTL_def ttlLookup_zero ttlLookup_none ttlLookup_default)
  show "getRefreshTokenTTL cfg ''default''
        = (case authRefreshTokenTTL cfg ''default'' of Some d \<Rightarrow> TTL d | None \<Rightarrow> NoTTL)"
    by (simp add: getRefreshTokenTTL_def ttlLookup_default readStore_default)
qed

theorem ttl_lookup_fallback_witness:
  "getAccessTokenTTL meuAppConfig ''meuApp'' = TTL 16000
   \<and> ''mobileApp1'' \<notin> set objectMembers
   \<and> getAccessTokenTTL meuAppConfig ''mobileApp1'' = TTL 300000
   \<and> getAccessTokenTTL meuAppConfig ''default'' = TTL 300000
   \<and> getRefreshTokenTTL meuAppConfig ''meuApp'' = TTL 20000
   \<and> getRefreshTokenTTL meuAppConfig ''default'' = TTL 20000"
  using ttl_lookup_fallback [of meuAppConfig "''meuApp''" 16000 20000]
    ttl_lookup_fallback [of meuAppConfig "''mobileApp1''" 0 0]
  by (simp add: meuAppConfig_def initialConfig_def assignTTL_def objectMembers_def
      DEFAULT_ACCESS_TOKEN_TTL_def DEFAULT_REFRESH_TOKEN_TTL_def)

text \<open>
  C4 as stated fails for a per-app duration of \<open>0\<close>: after \<open>accessTokenTTL('app1', 0)\<close> the
  entry is present, and the lookup returns the default of five minutes. It also fails for an
  appId with no entry that names an inherited member: the lookup for \<open>constructor\<close> in the
  initial configuration returns that member and not the default.
\<close>

theorem ttl_zero_entry_counterexample:
  "authAccessTokenTTL (accessTokenTTL (TwoArgs ''app1'' 0) initialConfig) ''app1'' = Some 0
   \<and> getAccessTokenTTL (accessTokenTTL (TwoArgs ''app1'' 0) initialConfig) ''app1'' = TTL 300000
   \<and> authAccessTokenTTL initialConfig ''constructor'' = None
   \<and> getAccessTokenTTL initialConfig ''constructor'' = InheritedMember ''constructor''
   \<and> getAccessTokenTTL initialConfig ''default'' = TTL 300000"
  by (simp add: getAccessTokenTTL_def ttlLookup_def readStore_def assignTTL_def objectMembers_def
      initialConfig_def DEFAULT_ACCESS_TOKEN_TTL_def)

text \<open>
  C5, amended. The payload that \<open>createAuthentication\<close> serializes has
  \<open>exp = now + access TTL\<close> and \<open>rtexp = now' + refresh TTL\<close> for two successive clock
  readings; \<open>rtexp \<ge> exp\<close> holds whenever the refresh TTL that applies to the appId is at
  least the access TTL that applies (as with the defaults) and the clock does not run
  backwards between the two readings.
\<close>

theorem createAuthentication_rtexp_ge_exp:
  assumes "getAccessTokenTTL cfg appId = TTL a"
    and "getRefreshTokenTTL cfg appId = TTL r"
    and "a \<le> r"
    and "clock e (reads w) \<le> clock e (Suc (reads w))"
  shows "fst (createAuthentication e cfg params userId appId dat w)
           = jwtSerialize e (fst (authenticationPayload e cfg userId appId dat w))
       \<and> exp (fst (authenticationPayload e cfg userId appId dat w)) = Some (clock e (reads w) + a)
       \<and> rtexp (fst (authenticationPayload e cfg userId appId dat w))
           = Some (clock e (Suc (reads w)) + r)
       \<and> clock e (reads w) + a \<le> clock e (Suc (reads w)) + r"
  using assms
  by (simp add: createAuthentication_def authenticationPayload_def getTime_def plusTTL_def
      Let_def split: prod.splits)

theorem createAuthentication_rtexp_ge_exp_witness:
  "getAccessTokenTTL initialConfig ''mobileApp1'' = TTL 300000
   \<and> getRefreshTokenTTL initialConfig ''mobileApp1'' = TTL 28800000
   \<and> exp (fst (authenticationPayload exampleEnv initialConfig (JNum 341) ''mobileApp1''
         (JObj [(''profile'', JStr ''admin'')]) (emptyWorld ''/login'' NoCookies)))
       = Some 1600000300000
   \<and> rtexp (fst (authenticationPayload exampleEnv initialConfig (JNum 341) ''mobileApp1''
         (JObj [(''profile'', JStr ''admin'')]) (emptyWorld ''/login'' NoCookies)))
       = Some 1600028800001"
  using createAuthentication_rtexp_ge_exp [of initialConfig "''mobileApp1''" 300000 28800000
      exampleEnv "emptyWorld ''/login'' NoCookies" Map.empty "JNum 341"
      "JObj [(''profile'', JStr ''admin'')]"]
  by (simp add: getAccessTokenTTL_def getRefreshTokenTTL_def ttlLookup_def readStore_def objectMembers_def assignTTL_def example_defs)

text \<open>
  C5 as stated fails under the configuration reached by
  \<open>accessTokenTTL('mobileApp1', 86400000)\<close> (one day, with the refresh TTL left at eight
  hours): the issued \<open>exp\<close> lies after the issued \<open>rtexp\<close>.
\<close>

theorem createAuthentication_long_access_ttl_counterexample:
  "exp (fst (authenticationPayload exampleEnv
         (accessTokenTTL (TwoArgs ''mobileApp1'' 86400000) initialConfig) (JNum 341) ''mobileApp1''
         (JObj [(''profile'', JStr ''admin'')]) (emptyWorld ''/login'' NoCookies)))
       = Some 1600086400000
   \<and> rtexp (fst (authenticationPayload exampleEnv
         (accessTokenTTL (TwoArgs ''mobileApp1'' 86400000) initialConfig) (JNum 341) ''mobileApp1''
         (JObj [(''profile'', JStr ''admin'')]) (emptyWorld ''/login'' NoCookies)))
       = Some 1600028800001
   \<and> (1600028800001 :: int) < 1600086400000"
  by (simp add: authenticationPayload_def getTime_def plusTTL_def getAccessTokenTTL_def
      getRefreshTokenTTL_def ttlLookup_def readStore_def objectMembers_def assignTTL_def example_defs Let_def)

section \<open>Frame of a request\<close>

lemma setTokenIntoHeader_world:
  "\<exists>c. setTokenIntoHeader e cfg params s w
         = w\<lparr>reads := Suc (reads w), resp := addHeader ''Set-Cookie'' c (resp w)\<rparr>"
  by (auto simp: setTokenIntoHeader_def getTime_def Let_def)

lemma isAuthenticatedUrl_total:
  "isAuthenticatedUrl e cfg uri =
     Inr (case authNotAuthenticatedUrls cfg of
            None \<Rightarrow> True
          | Some rules \<Rightarrow> \<not> (\<exists>r\<in>set rules. patternMatches e (rule_pattern r) uri))"
  by (auto simp: isAuthenticatedUrl_def urlMatches_no_predicate find_None_iff split: option.splits)

lemma renewToken_frame:
  assumes "renewToken e cfg params t w = (res, w')"
  shows "req w' = req w \<and> sentJson (resp w') = sentJson (resp w) \<and> printed w' = printed w"
  using assms
  by (auto simp: renewToken_def setTokenIntoHeader_def getTime_def addHeader_def Let_def
      split: option.splits)

lemma tryToRefreshToken_frame:
  assumes "tryToRefreshToken e cfg params t w = (res, w')"
  shows "req w' = req w \<and> sentJson (resp w') = sentJson (resp w) \<and> printed w' = printed w"
  using assms
  by (auto simp: tryToRefreshToken_def isRefreshTokenAlive_def getTime_def Let_def
      split: option.splits if_splits sum.splits bool.splits prod.splits dest: renewToken_frame)

lemma isAccessTokenAlive_frame:
  assumes "isAccessTokenAlive e t w = (b, w')"
  shows "req w' = req w \<and> resp w' = resp w \<and> printed w' = printed w"
  using assms
  by (auto simp: isAccessTokenAlive_def getTime_def Let_def split: option.splits if_splits)

lemma proccessAndValidateToken_frame:
  assumes "proccessAndValidateToken e cfg params w = (res, w')"
  shows "sentJson (resp w') = sentJson (resp w) \<and> printed w' = printed w"
proof (cases "readToken e (req w) (getTokenName params (req w))")
  case (Inl err)
  then show ?thesis using assms by (simp add: proccessAndValidateToken_def)
next
  case (Inr ot)
  show ?thesis
  proof (cases ot)
    case None
    then show ?thesis using assms Inr by (simp add: proccessAndValidateToken_def)
  next
    case (Some t)
    obtain alive w1 where a: "isAccessTokenAlive e t w = (alive, w1)"
      by (cases "isAccessTokenAlive e t w") auto
    obtain r2 w2 where b:
      "(if \<not> alive then tryToRefreshToken e cfg params t w1 else (Inr t, w1)) = (r2, w2)"
      by (cases "if \<not> alive then tryToRefreshToken e cfg params t w1 else (Inr t, w1)") auto
    have f1: "sentJson (resp w1) = sentJson (resp w) \<and> printed w1 = printed w"
      using isAccessTokenAlive_frame [OF a] by simp
    have f2: "sentJson (resp w2) = sentJson (resp w1) \<and> printed w2 = printed w1"
      using b tryToRefreshToken_frame [of e cfg params t w1 r2 w2] by (auto split: if_splits)
    show ?thesis
      using assms Inr Some a b f1 f2
      by (auto simp: proccessAndValidateToken_def Let_def split: sum.splits bool.splits)
  qed
qed

lemma isAccessTokenAlive_past:
  assumes "exp t = Some x" and "\<forall>n. reads w \<le> n \<longrightarrow> x < clock e n"
  shows "isAccessTokenAlive e t w = (False, w\<lparr>reads := (if x = 0 then reads w else Suc (reads w))\<rparr>)"
  using assms by (auto simp: isAccessTokenAlive_def getTime_def Let_def)

lemma tryToRefreshToken_past:
  assumes "rtexp t = Some y" and "\<forall>n. reads w \<le> n \<longrightarrow> y < clock e n"
  shows "tryToRefreshToken e cfg params t w =
           (Inl (RefreshTokenExpired (clock e (if y = 0 then reads w else Suc (reads w)))),
            w\<lparr>reads := (if y = 0 then Suc (reads w) else Suc (Suc (reads w)))\<rparr>)"
  using assms by (auto simp: tryToRefreshToken_def isRefreshTokenAlive_def getTime_def Let_def)

lemma renewToken_result:
  assumes "udata t = Some u"
    and "getAccessTokenTTL cfg (app u) = TTL a"
    and "getRefreshTokenTTL cfg (app u) = TTL r"
  shows "renewToken e cfg params t w =
           (Inr (t\<lparr>exp := Some (clock e (reads w) + a), rtexp := Some (clock e (reads w + 1) + r)\<rparr>),
            setTokenIntoHeader e cfg params
              (jwtSerialize e (t\<lparr>exp := Some (clock e (reads w) + a),
                                  rtexp := Some (clock e (reads w + 1) + r)\<rparr>))
              (w\<lparr>reads := reads w + 2\<rparr>))"
  using assms by (simp add: renewToken_def getTime_def plusTTL_def Let_def)

lemma readToken_tknWorld:
  "readToken (envDecoding t) (req (tknWorld uri)) (getTokenName Map.empty (req (tknWorld uri)))
     = Inr (Some t)"
  by (simp add: readToken_def extractToken_def getTokenName_def objectMembers_def eval_defs)

section \<open>Token renewal\<close>

text \<open>
  C2, amended. For a request whose token has a non-zero \<open>exp\<close> before the clock reading of
  the access check and a non-zero \<open>rtexp\<close> not before the reading of the refresh check, with
  the refresh-eligibility predicate granting or unset (and the token carrying \<open>udata\<close>, the TTLs
  being numbers), \<open>tryToRefreshToken\<close> runs once: the response gains exactly one
  \<open>Set-Cookie\<close> header. The renewed \<open>exp\<close> is the reading plus the access TTL and the
  renewed \<open>rtexp\<close> is the next reading plus the refresh TTL. The renewed \<open>exp\<close> exceeds the
  original when the access TTL is not negative and the clock has not run backwards; the
  renewed \<open>rtexp\<close> exceeds the original when the original lies less than one refresh TTL
  after the renewal, as it does for a token issued earlier under the same refresh TTL.
\<close>

theorem refresh_once_and_renewed:
  assumes "readToken e (req w) (getTokenName params (req w)) = Inr (Some t)"
    and "exp t = Some x" and "x \<noteq> 0" and "x < clock e (reads w)"
    and "rtexp t = Some y" and "y \<noteq> 0" and "clock e (reads w + 1) \<le> y"
    and "authCanRefreshTokenFn cfg = None
         \<or> (\<exists>f. authCanRefreshTokenFn cfg = Some f \<and> f t = Inr True)"
    and "udata t = Some u"
    and "getAccessTokenTTL cfg (app u) = TTL a"
    and "getRefreshTokenTTL cfg (app u) = TTL r"
  shows "\<exists>x' y' c.
           tryToRefreshToken e cfg params t (w\<lparr>reads := reads w + 1\<rparr>)
             = (Inr (t\<lparr>exp := Some x', rtexp := Some y'\<rparr>),
                w\<lparr>reads := reads w + 5, resp := addHeader ''Set-Cookie'' c (resp w)\<rparr>)
         \<and> x' = clock e (reads w + 2) + a
         \<and> y' = clock e (reads w + 3) + r
         \<and> resp (snd (proccessAndValidateToken e cfg params w))
             = addHeader ''Set-Cookie'' c (resp w)
         \<and> (0 \<le> a \<and> clock e (reads w) \<le> clock e (reads w + 2) \<longrightarrow> x < x')
         \<and> (y - r < clock e (reads w + 3) \<longrightarrow> y < y')"
proof -
  let ?w1 = "w\<lparr>reads := reads w + 1\<rparr>"
  let ?w4 = "w\<lparr>reads := reads w + 4\<rparr>"
  let ?x' = "clock e (reads w + 2) + a"
  let ?y' = "clock e (reads w + 3) + r"
  let ?t' = "t\<lparr>exp := Some ?x', rtexp := Some ?y'\<rparr>"
  have alive: "isAccessTokenAlive e t w = (False, ?w1)"
    using assms(2-4) by (simp add: isAccessTokenAlive_def getTime_def)
  have ralive: "isRefreshTokenAlive e t ?w1 = (True, w\<lparr>reads := reads w + 2\<rparr>)"
    using assms(5-7) by (simp add: isRefreshTokenAlive_def getTime_def)
  obtain c where c: "setTokenIntoHeader e cfg params (jwtSerialize e ?t') ?w4
      = ?w4\<lparr>reads := Suc (reads ?w4), resp := addHeader ''Set-Cookie'' c (resp ?w4)\<rparr>"
    using setTokenIntoHeader_world [of e cfg params "jwtSerialize e ?t'" ?w4] by blast
  let ?w5 = "w\<lparr>reads := reads w + 5, resp := addHeader ''Set-Cookie'' c (resp w)\<rparr>"
  have w5: "setTokenIntoHeader e cfg params (jwtSerialize e ?t') ?w4 = ?w5"
    by (subst c) simp
  have renew: "renewToken e cfg params t (w\<lparr>reads := reads w + 2\<rparr>) = (Inr ?t', ?w5)"
    using renewToken_result [OF assms(9-11), of e params "w\<lparr>reads := reads w + 2\<rparr>"] w5
    by (simp add: numeral_eq_Suc)
  have refreshed: "tryToRefreshToken e cfg params t ?w1 = (Inr ?t', ?w5)"
    using ralive renew assms(8) by (auto simp: tryToRefreshToken_def)
  have "\<exists>res. proccessAndValidateToken e cfg params w = (res, ?w5)
           \<or> proccessAndValidateToken e cfg params w
                = (res, ?w5\<lparr>req := (req ?w5)\<lparr>userData := udata ?t'\<rparr>\<rparr>)"
    using assms(1) alive refreshed
    by (auto simp: proccessAndValidateToken_def Let_def split: sum.splits bool.splits)
  then have presp: "resp (snd (proccessAndValidateToken e cfg params w))
      = addHeader ''Set-Cookie'' c (resp w)"
    by auto
  have cmp1: "0 \<le> a \<and> clock e (reads w) \<le> clock e (reads w + 2) \<longrightarrow> x < ?x'"
    using assms(4) by auto
  have cmp2: "y - r < clock e (reads w + 3) \<longrightarrow> y < ?y'"
    by auto
  have "tryToRefreshToken e cfg params t ?w1 = (Inr ?t', ?w5)
        \<and> ?x' = clock e (reads w + 2) + a \<and> ?y' = clock e (reads w + 3) + r
        \<and> resp (snd (proccessAndValidateToken e cfg params w)) = addHeader ''Set-Cookie'' c (resp w)
        \<and> (0 \<le> a \<and> clock e (reads w) \<le> clock e (reads w + 2) \<longrightarrow> x < ?x')
        \<and> (y - r < clock e (reads w + 3) \<longrightarrow> y < ?y')"
    using refreshed presp cmp1 cmp2 by blast
  then show ?thesis by blast
qed

theorem refresh_once_and_renewed_witness:
  "exp issuedToken = Some 1599990300000 \<and> rtexp issuedToken = Some 1600018800000
   \<and> fst (tryToRefreshToken (envDecoding issuedToken) adminConfig Map.empty issuedToken
        ((tknWorld ''/admin/reports'')\<lparr>reads := 1\<rparr>))
       = Inr (tokenWith 1600000300002 1600028800003)
   \<and> length (sentHeaders (resp (snd (proccessAndValidateToken (envDecoding issuedToken) adminConfig
        Map.empty (tknWorld ''/admin/reports''))))) = 1"
proof -
  have h: "getAccessTokenTTL adminConfig (app exampleUdata) = TTL 300000"
    "getRefreshTokenTTL adminConfig (app exampleUdata) = TTL 28800000"
    by (simp_all add: getAccessTokenTTL_def getRefreshTokenTTL_def ttlLookup_def readStore_def objectMembers_def assignTTL_def eval_defs)
  show ?thesis
    using refresh_once_and_renewed [of "envDecoding issuedToken" "tknWorld ''/admin/reports''"
        Map.empty issuedToken 1599990300000 1600018800000 adminConfig exampleUdata
        300000 28800000, OF readToken_tknWorld _ _ _ _ _ _ _ _ h]
    by (auto simp: eval_defs addHeader_def)
qed

text \<open>
  C2 as stated fails for a token whose \<open>rtexp\<close> was issued under a refresh TTL of seven days
  and that is renewed under the default of eight hours: \<open>exp\<close> is in the past, \<open>rtexp\<close> is in
  the future, and the renewed \<open>rtexp\<close> lies before the original.
\<close>

theorem refresh_shorter_rtexp_counterexample:
  "exp (tokenWith 1599990300000 1600594800000) = Some 1599990300000
   \<and> rtexp (tokenWith 1599990300000 1600594800000) = Some 1600594800000
   \<and> clock exampleEnv 0 = 1600000000000
   \<and> fst (tryToRefreshToken exampleEnv initialConfig Map.empty
        (tokenWith 1599990300000 1600594800000) (emptyWorld ''/home'' NoCookies))
       = Inr (tokenWith 1600000300001 1600028800002)
   \<and> (1600028800002 :: int) < 1600594800000"
  by (simp add: tryToRefreshToken_def isRefreshTokenAlive_def renewToken_def getTime_def
      plusTTL_def getAccessTokenTTL_def getRefreshTokenTTL_def ttlLookup_def readStore_def objectMembers_def assignTTL_def Let_def eval_defs)

text \<open>
  C10. When \<open>tryToRefreshToken\<close> renews a token, only \<open>exp\<close> and \<open>rtexp\<close> of the payload
  change: the token it serializes into the cookie has the \<open>iss\<close> and the \<open>udata\<close> of the
  original.
\<close>

theorem refresh_keeps_identity:
  assumes "tryToRefreshToken e cfg params t w = (Inr t', w')"
  shows "iss t' = iss t \<and> udata t' = udata t \<and> t' = t\<lparr>exp := exp t', rtexp := rtexp t'\<rparr>
         \<and> (\<exists>w0. w' = setTokenIntoHeader e cfg params (jwtSerialize e t') w0)"
proof -
  have r: "renewToken e cfg params t w0 = (Inr t', w') \<Longrightarrow> ?thesis" for w0
    by (auto simp: renewToken_def getTime_def Let_def split: option.splits)
  show ?thesis
    using assms r
    by (auto simp: tryToRefreshToken_def isRefreshTokenAlive_def getTime_def Let_def
        split: option.splits if_splits sum.splits bool.splits)
qed

theorem refresh_keeps_identity_witness:
  "fst (tryToRefreshToken exampleEnv initialConfig Map.empty issuedToken
        (emptyWorld ''/home'' NoCookies)) = Inr (tokenWith 1600000300001 1600028800002)
   \<and> iss (tokenWith 1600000300001 1600028800002) = iss issuedToken
   \<and> udata (tokenWith 1600000300001 1600028800002) = udata issuedToken"
proof -
  have r: "fst (tryToRefreshToken exampleEnv initialConfig Map.empty issuedToken
        (emptyWorld ''/home'' NoCookies)) = Inr (tokenWith 1600000300001 1600028800002)"
    by (simp add: tryToRefreshToken_def isRefreshTokenAlive_def renewToken_def getTime_def
        plusTTL_def getAccessTokenTTL_def getRefreshTokenTTL_def ttlLookup_def readStore_def objectMembers_def assignTTL_def Let_def eval_defs)
  then have "tryToRefreshToken exampleEnv initialConfig Map.empty issuedToken
        (emptyWorld ''/home'' NoCookies)
      = (Inr (tokenWith 1600000300001 1600028800002),
         snd (tryToRefreshToken exampleEnv initialConfig Map.empty issuedToken
           (emptyWorld ''/home'' NoCookies)))"
    by (metis prod.collapse)
  from refresh_keeps_identity [OF this] r show ?thesis
    by simp
qed

section \<open>Middleware\<close>

text \<open>
  C6. For a request whose token has \<open>exp\<close> and \<open>rtexp\<close> both before every clock reading of
  the request, \<open>proccessAndValidateToken\<close> throws the error of the expired refresh token and
  leaves request and response as they were; \<open>middleware\<close>, on a URI that requires
  authentication, then prints the error, answers with the rejection and returns false. In
  no case is \<open>request.userData\<close> attached.
\<close>

theorem expired_refresh_rejected:
  assumes "readToken e (req w) (getTokenName params (req w)) = Inr (Some t)"
    and "exp t = Some x"
    and "rtexp t = Some y"
    and "\<forall>n. reads w \<le> n \<longrightarrow> x < clock e n \<and> y < clock e n"
  shows "\<exists>d w1. proccessAndValidateToken e cfg params w = (Inl (RefreshTokenExpired d), w1)
           \<and> req w1 = req w \<and> resp w1 = resp w
           \<and> (isAuthenticatedUrl e cfg (requestURI (req w)) = Inr True \<longrightarrow>
                middleware e cfg params w
                  = (Inr False,
                     w1\<lparr>printed := printed w1 @ [RefreshTokenExpired d],
                        resp := notAuthenticated (resp w)\<rparr>))
           \<and> userData (req (snd (middleware e cfg params w))) = userData (req w)"
proof -
  let ?w1 = "w\<lparr>reads := (if x = 0 then reads w else Suc (reads w))\<rparr>"
  have a: "isAccessTokenAlive e t w = (False, ?w1)"
    using assms by (intro isAccessTokenAlive_past) auto
  have "\<forall>n. reads ?w1 \<le> n \<longrightarrow> y < clock e n"
    using assms(4) by auto
  then have b: "tryToRefreshToken e cfg params t ?w1 =
           (Inl (RefreshTokenExpired (clock e (if y = 0 then reads ?w1 else Suc (reads ?w1)))),
            ?w1\<lparr>reads := (if y = 0 then Suc (reads ?w1) else Suc (Suc (reads ?w1)))\<rparr>)"
    using assms(3) by (intro tryToRefreshToken_past) auto
  let ?d = "clock e (if y = 0 then reads ?w1 else Suc (reads ?w1))"
  let ?w2 = "?w1\<lparr>reads := (if y = 0 then Suc (reads ?w1) else Suc (Suc (reads ?w1)))\<rparr>"
  have p: "proccessAndValidateToken e cfg params w = (Inl (RefreshTokenExpired ?d), ?w2)"
    using assms(1) a b by (simp add: proccessAndValidateToken_def Let_def)
  have m: "isAuthenticatedUrl e cfg (requestURI (req w)) = Inr True \<longrightarrow>
             middleware e cfg params w
               = (Inr False,
                  ?w2\<lparr>printed := printed ?w2 @ [RefreshTokenExpired ?d],
                      resp := notAuthenticated (resp w)\<rparr>)"
    by (simp add: middleware_def p)
  have u: "userData (req (snd (middleware e cfg params w))) = userData (req w)"
  proof (cases "isAuthenticatedUrl e cfg (requestURI (req w)) = Inr True")
    case True
    then show ?thesis by (simp add: middleware_def p)
  next
    case False
    then have "isAuthenticatedUrl e cfg (requestURI (req w)) = Inr False"
      by (simp add: isAuthenticatedUrl_total)
    then show ?thesis by (simp add: middleware_def)
  qed
  have "proccessAndValidateToken e cfg params w = (Inl (RefreshTokenExpired ?d), ?w2)
          \<and> req ?w2 = req w \<and> resp ?w2 = resp w
          \<and> (isAuthenticatedUrl e cfg (requestURI (req w)) = Inr True \<longrightarrow>
                middleware e cfg params w
                  = (Inr False,
                     ?w2\<lparr>printed := printed ?w2 @ [RefreshTokenExpired ?d],
                         resp := notAuthenticated (resp w)\<rparr>))
          \<and> userData (req (snd (middleware e cfg params w))) = userData (req w)"
    using p m u by simp
  then show ?thesis by blast
qed

theorem expired_refresh_rejected_witness:
  "exp deadToken = Some 1500000000000 \<and> rtexp deadToken = Some 1500000300000
   \<and> clock (envDecoding deadToken) 0 = 1600000000000
   \<and> fst (proccessAndValidateToken (envDecoding deadToken) adminConfig Map.empty
        (tknWorld ''/admin/reports'')) = Inl (RefreshTokenExpired 1600000000002)
   \<and> fst (middleware (envDecoding deadToken) adminConfig Map.empty (tknWorld ''/admin/reports''))
       = Inr False
   \<and> userData (req (snd (middleware (envDecoding deadToken) adminConfig Map.empty
        (tknWorld ''/admin/reports'')))) = None
   \<and> sentJson (resp (snd (middleware (envDecoding deadToken) adminConfig Map.empty
        (tknWorld ''/admin/reports''))))
       = [(JObj [(''message'', JStr ''Authentication Error: Not Authenticated''),
                 (''status'', JNum 401)], 401)]"
proof -
  have past: "\<forall>n. reads (tknWorld ''/admin/reports'') \<le> n \<longrightarrow>
      1500000000000 < clock (envDecoding deadToken) n \<and> 1500000300000 < clock (envDecoding deadToken) n"
    by (simp add: eval_defs)
  have au: "isAuthenticatedUrl (envDecoding deadToken) adminConfig
      (requestURI (req (tknWorld ''/admin/reports''))) = Inr True"
    by (simp add: isAuthenticatedUrl_def eval_defs)
  have p: "fst (proccessAndValidateToken (envDecoding deadToken) adminConfig Map.empty
        (tknWorld ''/admin/reports'')) = Inl (RefreshTokenExpired 1600000000002)"
    by code_simp
  show ?thesis
    using expired_refresh_rejected [of "envDecoding deadToken" "tknWorld ''/admin/reports''"
        Map.empty deadToken 1500000000000 1500000300000 adminConfig,
        OF readToken_tknWorld _ _ past] au p
    by (auto simp: notAuthenticated_def json_def eval_defs)
qed

text \<open>
  C8. For a request whose URI matches a rule of the configured not-authenticated set,
  \<open>middleware\<close> returns true and changes nothing: no token is extracted, decoded or
  refreshed and nothing is written to the response, whatever cookies the request carries
  and whatever the codec would do with them.
\<close>

theorem middleware_exempt:
  assumes "authNotAuthenticatedUrls cfg = Some rules"
    and "\<exists>r\<in>set rules. patternMatches e (rule_pattern r) (requestURI (req w))"
  shows "middleware (e\<lparr>jwtDeserialize := dec\<rparr>) cfg params (w\<lparr>req := (req w)\<lparr>cookies := cs\<rparr>\<rparr>)
           = (Inr True, w\<lparr>req := (req w)\<lparr>cookies := cs\<rparr>\<rparr>)"
  using assms by (auto simp: middleware_def isAuthenticatedUrl_total)

theorem middleware_exempt_witness:
  "starMatches ''/public/*'' ''/public/health''
   \<and> middleware (exampleEnv\<lparr>jwtDeserialize := (\<lambda>s. Inl (Thrown ''malformed''))\<rparr>) publicConfig
        Map.empty (emptyWorld ''/public/health'' tknCookie)
       = (Inr True, emptyWorld ''/public/health'' tknCookie)
   \<and> middleware (envDecoding deadToken) publicConfig
        Map.empty (emptyWorld ''/public/health'' NoCookies)
       = (Inr True, emptyWorld ''/public/health'' NoCookies)"
  using middleware_exempt [of publicConfig
      "[\<lparr> rule_pattern = ''/public/*'', rule_data = JUndefined \<rparr>]"
      exampleEnv "emptyWorld ''/public/health'' NoCookies"
      "\<lambda>s. Inl (Thrown ''malformed'')" Map.empty tknCookie]
    middleware_exempt [of publicConfig
      "[\<lparr> rule_pattern = ''/public/*'', rule_data = JUndefined \<rparr>]"
      exampleEnv "emptyWorld ''/public/health'' NoCookies"
      "jwtDeserialize (envDecoding deadToken)" Map.empty NoCookies]
  by (simp add: eval_defs)

text \<open>
  C9. \<open>middleware\<close> returns true exactly when the URI is exempt or
  \<open>proccessAndValidateToken\<close> returns without throwing, and then no rejection is written;
  for every error that \<open>proccessAndValidateToken\<close> throws (no token, a token that does not
  decode, an expired or denied refresh, a failed authorization) it returns false and writes
  the one rejection: the JSON body with \<open>message\<close> and \<open>status\<close>, and the status 401.
\<close>

theorem middleware_rejection:
  "\<exists>b w'. middleware e cfg params w = (Inr b, w')
     \<and> b = (isAuthenticatedUrl e cfg (requestURI (req w)) = Inr False
            \<or> fst (proccessAndValidateToken e cfg params w) = Inr ())
     \<and> sentJson (resp w') = sentJson (resp w) @
         (if b then []
          else [(JObj [(''message'', JStr ''Authentication Error: Not Authenticated''),
                       (''status'', JNum 401)], 401)])"
proof (cases "isAuthenticatedUrl e cfg (requestURI (req w)) = Inr False")
  case True
  then show ?thesis by (auto simp: middleware_def)
next
  case False
  then have au: "isAuthenticatedUrl e cfg (requestURI (req w)) = Inr True"
    by (simp add: isAuthenticatedUrl_total)
  obtain res w1 where p: "proccessAndValidateToken e cfg params w = (res, w1)"
    by (cases "proccessAndValidateToken e cfg params w") auto
  have f: "sentJson (resp w1) = sentJson (resp w)"
    using proccessAndValidateToken_frame [OF p] by simp
  show ?thesis
    using au p f
    by (cases res) (auto simp: middleware_def notAuthenticated_def json_def)
qed

theorem middleware_rejection_witness:
  "fst (middleware exampleEnv adminConfig Map.empty (emptyWorld ''/admin/reports'' NoCookies))
     = Inr False
   \<and> sentJson (resp (snd (middleware exampleEnv adminConfig Map.empty
        (emptyWorld ''/admin/reports'' NoCookies))))
       = [(JObj [(''message'', JStr ''Authentication Error: Not Authenticated''),
                 (''status'', JNum 401)], 401)]
   \<and> fst (middleware (envDecoding issuedToken) adminConfig Map.empty (tknWorld ''/admin/reports''))
       = Inr True
   \<and> sentJson (resp (snd (middleware (envDecoding issuedToken) adminConfig Map.empty
        (tknWorld ''/admin/reports'')))) = []"
proof -
  have au: "isAuthenticatedUrl e adminConfig uri = Inr True" for e uri
    by (simp add: isAuthenticatedUrl_def eval_defs)
  have p1: "fst (proccessAndValidateToken exampleEnv adminConfig Map.empty
      (emptyWorld ''/admin/reports'' NoCookies)) = Inl TokenNotFound"
    by (simp add: proccessAndValidateToken_def readToken_def extractToken_def getTokenName_def objectMembers_def
        eval_defs)
  have p2: "fst (proccessAndValidateToken (envDecoding issuedToken) adminConfig Map.empty
      (tknWorld ''/admin/reports'')) = Inr ()"
    by code_simp
  show ?thesis
    using middleware_rejection [of exampleEnv adminConfig Map.empty
        "emptyWorld ''/admin/reports'' NoCookies"]
      middleware_rejection [of "envDecoding issuedToken" adminConfig Map.empty
        "tknWorld ''/admin/reports''"] au p1 p2
    by (auto simp: eval_defs)
qed

end
